theory Spec2Isabelle
  imports
    Complex_Main
    "HOL-Library.Char_ord"
    "HOL-Library.List_Lexorder"
    "HOL-Library.Product_Lexorder"
begin

section \<open>MDBenchmark: the plot command (mdbenchmark/plot.py)\<close>

text \<open>
  A shallow embedding of the decision logic of \<^verbatim>\<open>plot.py\<close>: the selection of rows
  (\<^verbatim>\<open>filter_dataframe_for_plotting\<close>), the grouping into lines (\<^verbatim>\<open>plot_over_group\<close>,
  \<^verbatim>\<open>plot_line\<close>, \<^verbatim>\<open>plot_projection\<close>), the step of the x ticks (\<^verbatim>\<open>get_xsteps\<close>) and the
  axis computations of \<^verbatim>\<open>plot\<close>.

  A pandas data frame is a list of rows in frame order. Integer columns are \<open>int\<close>, the
  column \<^verbatim>\<open>ns/day\<close> is \<open>real\<close> (float64 idealised: no rounding, no NaN, since \<^verbatim>\<open>plot\<close> drops
  rows with missing values before anything else). Strings are compared as Python compares
  them, character by character on the character codes.
\<close>

subsection \<open>Data\<close>

record row =
  host :: string
  module :: string
  gpu :: bool
  nodes :: int
  ncores :: int
  ns_day :: real

abbreviation mk_row :: "string \<Rightarrow> string \<Rightarrow> bool \<Rightarrow> int \<Rightarrow> int \<Rightarrow> real \<Rightarrow> row" where
  "mk_row h m g n c p \<equiv> \<lparr>host = h, module = m, gpu = g, nodes = n, ncores = c, ns_day = p\<rparr>"

text \<open>
  Every way in which the modelled code stops. The first five are the calls of
  \<^verbatim>\<open>console.error\<close> in \<^verbatim>\<open>filter_dataframe_for_plotting\<close>, in source order; the others are
  exceptions of Python and numpy.
\<close>

datatype error =
    NothingToPlot
  | EmptyDataset
  | HostsNotFound string
  | ModuleNotFound string
  | NoBenchmarkInfo
  | IndexError
  | ValueError
  | ArangeError
  | AttributeError

subsection \<open>\<^verbatim>\<open>get_xsteps\<close>\<close>

text \<open>
  \<^verbatim>\<open>xtick_step\<close> is the click option \<^verbatim>\<open>--xtick-step\<close> of type int: \<open>None\<close> when the option is
  not given. The test \<^verbatim>\<open>if xtick_step:\<close> is Python truthiness, false for \<^verbatim>\<open>None\<close> and for
  \<^verbatim>\<open>0\<close>.
\<close>

definition get_xsteps :: "int \<Rightarrow> int \<Rightarrow> bool \<Rightarrow> int option \<Rightarrow> int" where
  "get_xsteps sz min_x plot_cores xtick_step =
     (let step = 1;
          step = (if sz \<ge> 18 then 2 else step);
          step = (if plot_cores \<and> (sz > 10 \<or> min_x \<ge> 100) then 3 else step);
          step = (case xtick_step of
                    None \<Rightarrow> step
                  | Some u \<Rightarrow> if u \<noteq> 0 then u else step)
      in step)"

subsection \<open>Library operations used by the code\<close>

text \<open>\<^verbatim>\<open>sep.join(xs)\<close> of Python.\<close>

fun join :: "string \<Rightarrow> string list \<Rightarrow> string" where
  "join sep [] = []"
| "join sep [x] = x"
| "join sep (x # y # ys) = x @ sep @ join sep (y # ys)"

text \<open>\<^verbatim>\<open>np.unique\<close>: the distinct values, sorted ascending.\<close>

definition np_unique :: "string list \<Rightarrow> string list" where
  "np_unique xs = sort (remdups xs)"

text \<open>
  \<^verbatim>\<open>np.arange(start, stop, step)\<close> on integers and on floats: \<open>\<lceil>(stop - start) / step\<rceil>\<close> values
  \<open>start + i * step\<close>, none when that number is not positive. A step of zero makes numpy
  fail while it computes the length.
\<close>

definition arange :: "int \<Rightarrow> int \<Rightarrow> int \<Rightarrow> error + int list" where
  "arange start stop step =
     (if step = 0 then Inl ArangeError
      else Inr (map (\<lambda>i. start + int i * step) [0 ..< nat (- ((start - stop) div step))]))"

definition arange_real :: "real \<Rightarrow> real \<Rightarrow> real \<Rightarrow> error + real list" where
  "arange_real start stop step =
     (if step = 0 then Inl ArangeError
      else Inr (map (\<lambda>i. start + real i * step) [0 ..< nat \<lceil>(stop - start) / step\<rceil>]))"

text \<open>\<^verbatim>\<open>.astype(int)\<close> of a float: truncation towards zero.\<close>

definition astype_int :: "real \<Rightarrow> int" where
  "astype_int x = (if 0 \<le> x then \<lfloor>x\<rfloor> else \<lceil>x\<rceil>)"

text \<open>
  The extended slice \<^verbatim>\<open>xs[::k]\<close>: every \<open>k\<close>-th element from the first one when \<open>k\<close> is
  positive, every \<open>|k|\<close>-th element from the last one backwards when \<open>k\<close> is negative, and a
  ValueError when \<open>k\<close> is zero.
\<close>

fun stride :: "nat \<Rightarrow> 'a list \<Rightarrow> 'a list" where
  "stride k [] = []"
| "stride k (x # xs) = x # stride k (drop (k - 1) xs)"

definition slice_step :: "'a list \<Rightarrow> int \<Rightarrow> error + 'a list" where
  "slice_step xs k =
     (if k = 0 then Inl ValueError
      else if 0 < k then Inr (stride (nat k) xs)
      else Inr (stride (nat (- k)) (rev xs)))"

text \<open>
  \<^verbatim>\<open>Series.str.contains(pat)\<close> searches each cell for a match of the regular expression
  \<open>pat\<close>. The search is pandas' and is a parameter \<open>srch pat cell\<close> of the model. For a
  pattern without any metacharacter other than \<^verbatim>\<open>|\<close>, which is the case of the patterns
  built from the names \<^verbatim>\<open>gromacs\<close> and \<^verbatim>\<open>namd\<close>, the search is \<open>re_search_literal\<close>: some
  alternative of the pattern occurs in the cell as a substring.
\<close>

fun starts_with :: "string \<Rightarrow> string \<Rightarrow> bool" where
  "starts_with [] s = True"
| "starts_with (p # ps) [] = False"
| "starts_with (p # ps) (c # cs) = (p = c \<and> starts_with ps cs)"

fun occurs_in :: "string \<Rightarrow> string \<Rightarrow> bool" where
  "occurs_in p [] = (p = [])"
| "occurs_in p (c # cs) = (starts_with p (c # cs) \<or> occurs_in p cs)"

fun split_bar :: "string \<Rightarrow> string list" where
  "split_bar [] = [[]]"
| "split_bar (c # cs) =
     (if c = CHR ''|'' then [] # split_bar cs
      else (case split_bar cs of
              [] \<Rightarrow> [[c]]
            | a # as \<Rightarrow> (c # a) # as))"

definition re_search_literal :: "string \<Rightarrow> string \<Rightarrow> bool" where
  "re_search_literal pat cell = list_ex (\<lambda>alt. occurs_in alt cell) (split_bar pat)"

subsection \<open>\<^verbatim>\<open>filter_dataframe_for_plotting\<close>\<close>

text \<open>
  The loop over the requested modules: the names \<^verbatim>\<open>gromacs\<close> and \<^verbatim>\<open>namd\<close> pass, any other
  name has to be the module of some row.
\<close>

fun check_modules :: "string list \<Rightarrow> row list \<Rightarrow> error + unit" where
  "check_modules [] df = Inr ()"
| "check_modules (m # ms) df =
     (if m \<in> set [''gromacs'', ''namd''] then check_modules ms df
      else if m \<in> set (map module df) then check_modules ms df
      else Inl (ModuleNotFound m))"

text \<open>
  Modelled from the spec: \<^verbatim>\<open>console.error\<close> is defined in \<^verbatim>\<open>mdbenchmark/console.py\<close>, which
  is not part of the sources at hand. By the spec every such error is terminal (a message
  and a non-zero exit), so each call ends the run with the error as its result.
\<close>

definition filter_dataframe_for_plotting ::
  "(string \<Rightarrow> string \<Rightarrow> bool) \<Rightarrow> row list \<Rightarrow> string list \<Rightarrow> string list \<Rightarrow> bool \<Rightarrow> bool
     \<Rightarrow> error + row list" where
  "filter_dataframe_for_plotting srch df0 host_name module_name gpu_flag cpu_flag =
     (case (if gpu_flag \<and> cpu_flag then Inr df0
            else if gpu_flag \<and> \<not> cpu_flag then Inr (filter gpu df0)
            else if cpu_flag \<and> \<not> gpu_flag then Inr (filter (\<lambda>r. \<not> gpu r) df0)
            else Inl NothingToPlot) of
        Inl e \<Rightarrow> Inl e
      | Inr df \<Rightarrow>
          if df = [] then Inl EmptyDataset
          else
            let df_filtered_hosts = filter (\<lambda>r. host r \<in> set host_name) df;
                df_unique_hosts = np_unique (map host df_filtered_hosts)
            in
            if length df_unique_hosts \<noteq> length host_name
            then Inl (HostsNotFound (join '', '' (np_unique (map host df))))
            else
              let df = (if host_name = [] then df else df_filtered_hosts) in
              (case check_modules module_name df of
                 Inl e \<Rightarrow> Inl e
               | Inr _ \<Rightarrow>
                   let df = (if module_name \<noteq> []
                             then filter (\<lambda>r. srch (join ''|'' module_name) (module r)) df
                             else df)
                   in if df = [] then Inl NoBenchmarkInfo else Inr df))"

subsection \<open>\<^verbatim>\<open>plot_projection\<close>, \<^verbatim>\<open>plot_line\<close>, \<^verbatim>\<open>plot_over_group\<close>\<close>

text \<open>
  Modelled from the spec: \<^verbatim>\<open>calc_slope_intercept\<close> and \<^verbatim>\<open>lin_func\<close> are imported from
  \<^verbatim>\<open>mdbenchmark/utils.py\<close>, which is not part of the sources at hand. By the spec the line
  through \<open>(x1, y1)\<close> and \<open>(x2, y2)\<close> has \<open>slope = (y2 - y1) / (x2 - x1)\<close> and
  \<open>intercept = y1 - slope * x1\<close>, and there is no line when \<open>x2 = x1\<close>.
\<close>

definition calc_slope_intercept :: "real \<times> real \<Rightarrow> real \<times> real \<Rightarrow> (real \<times> real) option" where
  "calc_slope_intercept p1 p2 =
     (case (p1, p2) of
        ((x1, y1), (x2, y2)) \<Rightarrow>
          if x2 = x1 then None
          else (let slope = (y2 - y1) / (x2 - x1);
                    intercept = y1 - slope * x1
                in Some (slope, intercept)))"

definition lin_func :: "real \<Rightarrow> real \<Rightarrow> real \<Rightarrow> real" where
  "lin_func x m b = m * x + b"

text \<open>
  What \<^verbatim>\<open>plot_projection\<close> computes before it draws: the line through the first two rows
  of the frame, and the x value one step (the distance of the first two x values) beyond
  the last row. \<^verbatim>\<open>iloc[1]\<close> raises IndexError on a frame of fewer than two rows.
\<close>

record projection =
  pr_line :: "(real \<times> real) option"
  pr_xmax :: int

fun plot_projection :: "row list \<Rightarrow> (row \<Rightarrow> int) \<Rightarrow> error + projection" where
  "plot_projection (r0 # r1 # rest) selection =
     (let ln = calc_slope_intercept
                 (real_of_int (selection r0), ns_day r0)
                 (real_of_int (selection r1), ns_day r1);
          xstep = selection r1 - selection r0;
          xmax = selection (last (r0 # r1 # rest)) + xstep
      in Inr \<lparr>pr_line = ln, pr_xmax = xmax\<rparr>)"
| "plot_projection df selection = Inl IndexError"

text \<open>One drawn line: its label, its points in frame order, and its projection if any.\<close>

record series =
  sr_label :: string
  sr_points :: "(int \<times> real) list"
  sr_fit :: "projection option"

definition plot_line :: "row list \<Rightarrow> (row \<Rightarrow> int) \<Rightarrow> string \<Rightarrow> bool \<Rightarrow> error + series" where
  "plot_line df selection label fit =
     (let p = map (\<lambda>r. (selection r, ns_day r)) df in
      if fit \<and> length (map selection df) > 1
      then (case plot_projection df selection of
              Inl e \<Rightarrow> Inl e
            | Inr pr \<Rightarrow> Inr \<lparr>sr_label = label, sr_points = p, sr_fit = Some pr\<rparr>)
      else Inr \<lparr>sr_label = label, sr_points = p, sr_fit = None\<rparr>)"

text \<open>
  \<^verbatim>\<open>df.groupby(["gpu", "module", "host"])\<close>, iterated: one pair of key and sub-frame for
  each key present, the keys in ascending order, each sub-frame with the rows of that key
  in the order they have in \<open>df\<close>.
\<close>

type_synonym group_key = "bool \<times> string \<times> string"

definition key_of :: "row \<Rightarrow> group_key" where
  "key_of r = (gpu r, module r, host r)"

definition groupby :: "row list \<Rightarrow> (group_key \<times> row list) list" where
  "groupby df = map (\<lambda>k. (k, filter (\<lambda>r. key_of r = k) df)) (sort (remdups (map key_of df)))"

definition group_label :: "group_key \<Rightarrow> string" where
  "group_label key =
     (case key of
        (g, m, h) \<Rightarrow> h @ '' - '' @ m @ '' on '' @ (if g then ''GPU'' else ''CPU'') @ ''s'')"

fun plot_groups ::
  "(group_key \<times> row list) list \<Rightarrow> (row \<Rightarrow> int) \<Rightarrow> bool \<Rightarrow> error + series list" where
  "plot_groups [] selection fit = Inr []"
| "plot_groups ((key, df) # gb) selection fit =
     (case plot_line df selection (group_label key) fit of
        Inl e \<Rightarrow> Inl e
      | Inr s \<Rightarrow> (case plot_groups gb selection fit of
                    Inl e \<Rightarrow> Inl e
                  | Inr ss \<Rightarrow> Inr (s # ss)))"

definition plot_over_group :: "row list \<Rightarrow> bool \<Rightarrow> bool \<Rightarrow> error + series list" where
  "plot_over_group df plot_cores fit =
     (let selection = (if plot_cores then ncores else nodes)
      in plot_groups (groupby df) selection fit)"

subsection \<open>The axes of \<^verbatim>\<open>plot\<close>\<close>

text \<open>
  The x axis (\<^verbatim>\<open># Update xticks\<close>): the candidate ticks, the step, the ticks that are
  set and the limits. The minimum and maximum of an empty column are NaN, on which
  \<^verbatim>\<open>np.arange\<close> raises a ValueError.
\<close>

record xaxis =
  xa_candidates :: "int list"
  xa_step :: int
  xa_ticks :: "int list"
  xa_lim :: "real \<times> real"

definition plot_xaxis :: "row list \<Rightarrow> bool \<Rightarrow> int option \<Rightarrow> error + xaxis" where
  "plot_xaxis df plot_cores xtick_step =
     (if df = [] then Inl ValueError
      else
        let selection = (if plot_cores then ncores else nodes);
            min_x = (if plot_cores then Min (set (map selection df)) else 1);
            max_x = Max (set (map selection df));
            xticks_steps = min_x
        in
        (case arange min_x (max_x + min_x) xticks_steps of
           Inl e \<Rightarrow> Inl e
         | Inr xticks \<Rightarrow>
             let step = get_xsteps (int (length xticks)) min_x plot_cores xtick_step in
             (case slice_step xticks step of
                Inl e \<Rightarrow> Inl e
              | Inr shown \<Rightarrow>
                  let xdiff = real_of_int min_x * 0.5 * real_of_int step in
                  Inr \<lparr>xa_candidates = xticks, xa_step = step, xa_ticks = shown,
                       xa_lim = (real_of_int min_x - xdiff, real_of_int max_x + xdiff)\<rparr>)))"

text \<open>
  The y axis (\<^verbatim>\<open># Update yticks\<close>). \<^verbatim>\<open>yticks_steps\<close> is the interval of the ticks. When the
  largest performance is zero, \<^verbatim>\<open>max_y or 50\<close> is the Python integer 50, \<^verbatim>\<open>(50 + 1) / 10\<close> is
  a Python float, and a Python float has no \<^verbatim>\<open>astype\<close>.
\<close>

definition yticks_steps :: "real \<Rightarrow> error + int" where
  "yticks_steps data_max =
     (if data_max = 0 then Inl AttributeError
      else Inr (astype_int ((data_max + 1) / 10)))"

record yaxis =
  ya_ticks :: "real list"
  ya_lim :: "real \<times> real"

definition plot_yaxis :: "row list \<Rightarrow> error + yaxis" where
  "plot_yaxis df =
     (if df = [] then Inl ValueError
      else
        let max_y = Max (set (map ns_day df)) in
        (case yticks_steps max_y of
           Inl e \<Rightarrow> Inl e
         | Inr st \<Rightarrow>
             (case arange_real 0 (max_y + (max_y * 0.25)) (real_of_int st) of
                Inl e \<Rightarrow> Inl e
              | Inr yticks \<Rightarrow>
                  Inr \<lparr>ya_ticks = yticks, ya_lim = (0, max_y + (max_y * 0.25))\<rparr>)))"

subsection \<open>\<^verbatim>\<open>plot\<close>\<close>

text \<open>
  The command from the frame that was read (rows with missing values already dropped) to
  what is handed to matplotlib: the lines and the two axes. The first failure ends it.
\<close>

record chart =
  ch_lines :: "series list"
  ch_xaxis :: xaxis
  ch_yaxis :: yaxis

definition plot ::
  "(string \<Rightarrow> string \<Rightarrow> bool) \<Rightarrow> row list \<Rightarrow> string list \<Rightarrow> string list \<Rightarrow> bool \<Rightarrow> bool
     \<Rightarrow> bool \<Rightarrow> bool \<Rightarrow> int option \<Rightarrow> error + chart" where
  "plot srch df0 template modules gpu_flag cpu_flag plot_cores fit xtick_step =
     (case filter_dataframe_for_plotting srch df0 template modules gpu_flag cpu_flag of
        Inl e \<Rightarrow> Inl e
      | Inr df \<Rightarrow>
          (case plot_over_group df plot_cores fit of
             Inl e \<Rightarrow> Inl e
           | Inr ls \<Rightarrow>
               (case plot_xaxis df plot_cores xtick_step of
                  Inl e \<Rightarrow> Inl e
                | Inr xa \<Rightarrow>
                    (case plot_yaxis df of
                       Inl e \<Rightarrow> Inl e
                     | Inr ya \<Rightarrow> Inr \<lparr>ch_lines = ls, ch_xaxis = xa, ch_yaxis = ya\<rparr>))))"

subsection \<open>The stages of the selection\<close>

text \<open>
  Names for two parts of \<^verbatim>\<open>filter_dataframe_for_plotting\<close>, used to state what the part
  between them does: the frame left by the selection of the processor type (the first
  \<^verbatim>\<open>if\<close>/\<^verbatim>\<open>elif\<close> chain), and the function from the loop over \<^verbatim>\<open>module_name\<close> to its end.
\<close>

definition processor_rows :: "bool \<Rightarrow> bool \<Rightarrow> row list \<Rightarrow> row list" where
  "processor_rows gpu_flag cpu_flag df0 =
     (if gpu_flag \<and> cpu_flag then df0
      else if gpu_flag \<and> \<not> cpu_flag then filter gpu df0
      else if cpu_flag \<and> \<not> gpu_flag then filter (\<lambda>r. \<not> gpu r) df0
      else df0)"

definition module_rows ::
  "(string \<Rightarrow> string \<Rightarrow> bool) \<Rightarrow> string list \<Rightarrow> row list \<Rightarrow> error + row list" where
  "module_rows srch module_name df0 =
     (case check_modules module_name df0 of
        Inl e \<Rightarrow> Inl e
      | Inr _ \<Rightarrow>
          let df = (if module_name \<noteq> []
                    then filter (\<lambda>r. srch (join ''|'' module_name) (module r)) df0
                    else df0)
          in if df = [] then Inl NoBenchmarkInfo else Inr df)"

subsection \<open>Theorems\<close>

text \<open>
  C6. Without a user step (\<open>xtick_step = None\<close>) \<open>get_xsteps\<close> is 1 by default, 2 from 18
  candidate ticks on, and 3 when cores are plotted and there are more than 10 candidate
  ticks or the smallest x value is at least 100; the rule for 3 replaces the result of
  the rule for 2. The three examples of the spec evaluate to 1, 2 and 3.
\<close>

theorem get_xsteps_heuristics:
  "get_xsteps sz min_x plot_cores None =
     (if plot_cores \<and> (sz > 10 \<or> min_x \<ge> 100) then 3 else if sz \<ge> 18 then 2 else 1)
   \<and> get_xsteps 5 4 False None = 1
   \<and> get_xsteps 20 min_x False None = 2
   \<and> get_xsteps 15 128 True None = 3"
  by (simp add: get_xsteps_def)

text \<open>
  C4 (amended). A user step that is given and is not zero is returned as it is, whatever
  the other arguments; a user step of zero is treated as if none was given, because the
  test \<^verbatim>\<open>if xtick_step:\<close> is false for it.
\<close>

theorem get_xsteps_user_step:
  "(u \<noteq> 0 \<longrightarrow> get_xsteps sz min_x plot_cores (Some u) = u)
   \<and> get_xsteps sz min_x plot_cores (Some 0) = get_xsteps sz min_x plot_cores None"
  by (simp add: get_xsteps_def)

theorem get_xsteps_user_step_witness:
  "(5::int) \<noteq> 0 \<and> get_xsteps 20 128 True (Some 5) = 5
   \<and> get_xsteps 20 128 True (Some 0) = get_xsteps 20 128 True None"
  using get_xsteps_user_step [of 5 20 128 True] by simp

text \<open>
  C4 as stated fails: with 20 candidate ticks and the user step 0 the result is the
  heuristic step 2, not 0.
\<close>

theorem get_xsteps_zero_counterexample:
  "get_xsteps 20 1 False (Some 0) = 2 \<and> get_xsteps 20 1 False (Some 0) \<noteq> 0"
  by (simp add: get_xsteps_def)

text \<open>
  C5. With neither GPU nor CPU requested the selection fails with the error "nothing to
  plot" for every frame and every other argument, and so does the whole command: no
  grouping is computed.
\<close>

theorem neither_cpu_nor_gpu:
  "filter_dataframe_for_plotting srch df0 host_name module_names False False
     = Inl NothingToPlot
   \<and> plot srch df0 host_name module_names False False plot_cores fit xtick_step
     = Inl NothingToPlot"
  by (simp add: filter_dataframe_for_plotting_def plot_def)

theorem neither_cpu_nor_gpu_witness:
  "filter_dataframe_for_plotting re_search_literal
      [mk_row ''node01'' ''gromacs/2018'' False 1 40 10] [''node01''] [''gromacs''] False False
     = Inl NothingToPlot
   \<and> plot re_search_literal
      [mk_row ''node01'' ''gromacs/2018'' False 1 40 10] [''node01''] [''gromacs''] False False False True None
     = Inl NothingToPlot"
  using neither_cpu_nor_gpu [of re_search_literal
      "[mk_row ''node01'' ''gromacs/2018'' False 1 40 10]" "[''node01'']" "[''gromacs'']" False True None]
  by simp

text \<open>
  C9. On a frame that is not empty, the selection with no host, no module and both
  processor types requested returns the frame itself.
\<close>

theorem filter_all_inclusive:
  "df0 \<noteq> [] \<Longrightarrow> filter_dataframe_for_plotting srch df0 [] [] True True = Inr df0"
  by (simp add: filter_dataframe_for_plotting_def np_unique_def)

theorem filter_all_inclusive_witness:
  "[mk_row ''node01'' ''gromacs/2018'' False 1 40 10] \<noteq> []
   \<and> filter_dataframe_for_plotting re_search_literal
        [mk_row ''node01'' ''gromacs/2018'' False 1 40 10] [] [] True True
      = Inr [mk_row ''node01'' ''gromacs/2018'' False 1 40 10]"
  using filter_all_inclusive [of
      "[mk_row ''node01'' ''gromacs/2018'' False 1 40 10]" re_search_literal]
  by simp

subsection \<open>The selection by stages\<close>

lemma filter_by_module_rows:
  "filter_dataframe_for_plotting srch df0 host_name module_names gpu_flag cpu_flag =
     (if \<not> cpu_flag \<and> \<not> gpu_flag then Inl NothingToPlot
      else if processor_rows gpu_flag cpu_flag df0 = [] then Inl EmptyDataset
      else if length (np_unique (map host (filter (\<lambda>r. host r \<in> set host_name)
                                              (processor_rows gpu_flag cpu_flag df0))))
                \<noteq> length host_name
        then Inl (HostsNotFound
                    (join '', '' (np_unique (map host (processor_rows gpu_flag cpu_flag df0)))))
      else module_rows srch module_names
            (if host_name = [] then processor_rows gpu_flag cpu_flag df0
             else filter (\<lambda>r. host r \<in> set host_name)
                    (processor_rows gpu_flag cpu_flag df0)))"
  unfolding filter_dataframe_for_plotting_def processor_rows_def module_rows_def Let_def
  by (cases gpu_flag; cases cpu_flag) (simp_all split: sum.splits)

lemma filter_stages:
  assumes "gpu_flag \<or> cpu_flag" and "processor_rows gpu_flag cpu_flag df0 \<noteq> []"
  shows "filter_dataframe_for_plotting srch df0 host_name module_names gpu_flag cpu_flag =
     (let df = processor_rows gpu_flag cpu_flag df0;
          fh = filter (\<lambda>r. host r \<in> set host_name) df
      in if length (np_unique (map host fh)) \<noteq> length host_name
         then Inl (HostsNotFound (join '', '' (np_unique (map host df))))
         else module_rows srch module_names (if host_name = [] then df else fh))"
  using assms unfolding filter_by_module_rows Let_def by auto

lemma np_unique_length: "length (np_unique xs) = card (set xs)"
  by (simp add: np_unique_def length_remdups_card_conv)

lemma matched_hosts:
  "set (map host (filter (\<lambda>r. host r \<in> set host_name) df)) = host ` set df \<inter> set host_name"
  by auto

lemma matched_hosts_le: "card (host ` set df \<inter> set host_name) \<le> length host_name"
proof -
  have "card (host ` set df \<inter> set host_name) \<le> card (set host_name)"
    by (rule card_mono) auto
  also have "\<dots> \<le> length host_name" by (rule card_length)
  finally show ?thesis .
qed

lemma module_rows_subset: "module_rows srch module_names df = Inr out \<Longrightarrow> set out \<subseteq> set df"
  by (auto simp: module_rows_def Let_def split: sum.splits if_splits)

lemma check_modules_families:
  "set module_names \<subseteq> {''gromacs'', ''namd''} \<Longrightarrow> check_modules module_names df = Inr ()"
  by (induction module_names) auto

lemma module_rows_families:
  assumes "module_names \<noteq> []" and "set module_names \<subseteq> {''gromacs'', ''namd''}"
  shows "module_rows srch module_names df =
     (let kept = filter (\<lambda>r. srch (join ''|'' module_names) (module r)) df
      in if kept = [] then Inl NoBenchmarkInfo else Inr kept)"
  using assms(1) check_modules_families [OF assms(2)]
  by (simp add: module_rows_def)

lemma module_rows_empty: "module_rows srch [] df = (if df = [] then Inl NoBenchmarkInfo else Inr df)"
  by (simp add: module_rows_def)

lemma search_examples:
  "re_search_literal ''gromacs'' ''gromacs/2018''" "\<not> re_search_literal ''gromacs'' ''namd/2.12''"
  by (simp_all add: re_search_literal_def)

lemma np_unique_sorted: "sorted (np_unique xs) \<and> distinct (np_unique xs) \<and> set (np_unique xs) = set xs"
  by (simp add: np_unique_def)

text \<open>
  C7 (amended). Let \<open>df\<close> be the frame left by the selection of the processor type, not
  empty, and let no host be requested twice. With no host requested, nothing is removed
  for its host: the result is that of the module stage on \<open>df\<close>. With hosts requested of
  which fewer occur in \<open>df\<close> than were requested, the selection fails with the error that
  lists the hosts of \<open>df\<close> (not of the frame that was read), each once and in ascending
  order. Otherwise the result is that of the module stage on the rows of \<open>df\<close> whose host
  is requested, so every returned row has a requested host.
\<close>

theorem filter_hosts:
  assumes "gpu_flag \<or> cpu_flag"
    and "processor_rows gpu_flag cpu_flag df0 = df"
    and "df \<noteq> []"
    and "distinct host_name"
  shows
    "(host_name = [] \<longrightarrow>
        filter_dataframe_for_plotting srch df0 host_name module_names gpu_flag cpu_flag
          = module_rows srch module_names df)
     \<and> (host_name \<noteq> [] \<and> card (host ` set df \<inter> set host_name) < card (set host_name) \<longrightarrow>
        filter_dataframe_for_plotting srch df0 host_name module_names gpu_flag cpu_flag
          = Inl (HostsNotFound (join '', '' (np_unique (map host df))))
        \<and> set (np_unique (map host df)) = host ` set df
        \<and> distinct (np_unique (map host df))
        \<and> sorted (np_unique (map host df)))
     \<and> (host_name \<noteq> [] \<and> \<not> card (host ` set df \<inter> set host_name) < card (set host_name) \<longrightarrow>
        filter_dataframe_for_plotting srch df0 host_name module_names gpu_flag cpu_flag
          = module_rows srch module_names (filter (\<lambda>r. host r \<in> set host_name) df)
        \<and> (\<forall>out.
              filter_dataframe_for_plotting srch df0 host_name module_names gpu_flag cpu_flag
                = Inr out
              \<longrightarrow> set out \<subseteq> {r \<in> set df. host r \<in> set host_name}))"
proof -
  let ?F = "filter_dataframe_for_plotting srch df0 host_name module_names gpu_flag cpu_flag"
  let ?fh = "filter (\<lambda>r. host r \<in> set host_name) df"
  have len: "length host_name = card (set host_name)"
    using assms(4) by (simp add: distinct_card)
  have n: "length (np_unique (map host ?fh)) = card (host ` set df \<inter> set host_name)"
    unfolding np_unique_length matched_hosts ..
  have le: "card (host ` set df \<inter> set host_name) \<le> card (set host_name)"
    using matched_hosts_le [of df host_name] len by simp
  have F: "?F = (if card (host ` set df \<inter> set host_name) \<noteq> card (set host_name)
                 then Inl (HostsNotFound (join '', '' (np_unique (map host df))))
                 else module_rows srch module_names (if host_name = [] then df else ?fh))"
    using filter_stages [of gpu_flag cpu_flag df0 srch host_name "module_names"] assms(1-3) n len
    by (simp add: Let_def)
  have a: "host_name = [] \<longrightarrow> ?F = module_rows srch module_names df"
    using F by auto
  have b: "host_name \<noteq> [] \<and> card (host ` set df \<inter> set host_name) < card (set host_name) \<longrightarrow>
        ?F = Inl (HostsNotFound (join '', '' (np_unique (map host df))))
        \<and> set (np_unique (map host df)) = host ` set df
        \<and> distinct (np_unique (map host df))
        \<and> sorted (np_unique (map host df))"
    using F np_unique_sorted [of "map host df"] by auto
  have c1: "host_name \<noteq> [] \<and> \<not> card (host ` set df \<inter> set host_name) < card (set host_name) \<longrightarrow>
        ?F = module_rows srch module_names ?fh"
    using F le by auto
  have c2: "host_name \<noteq> [] \<and> \<not> card (host ` set df \<inter> set host_name) < card (set host_name) \<longrightarrow>
        (\<forall>out. ?F = Inr out \<longrightarrow> set out \<subseteq> {r \<in> set df. host r \<in> set host_name})"
    using c1 module_rows_subset [of srch "module_names" ?fh] by auto
  show ?thesis using a b c1 c2 by blast
qed

theorem filter_hosts_witness:
  "filter_dataframe_for_plotting re_search_literal
      [mk_row ''node02'' ''gromacs/2018'' False 2 80 19,
       mk_row ''node01'' ''gromacs/2018'' False 1 40 10]
      [''ghost''] [] True True
     = Inl (HostsNotFound ''node01, node02'')
   \<and> filter_dataframe_for_plotting re_search_literal
      [mk_row ''node01'' ''gromacs/2018'' False 1 40 10]
      [] [] True True
     = Inr [mk_row ''node01'' ''gromacs/2018'' False 1 40 10]
   \<and> filter_dataframe_for_plotting re_search_literal
      [mk_row ''node01'' ''gromacs/2018'' False 1 40 10,
       mk_row ''node02'' ''gromacs/2018'' False 2 80 19]
      [''node02''] [] True True
     = Inr [mk_row ''node02'' ''gromacs/2018'' False 2 80 19]"
  using
    filter_hosts [where gpu_flag = True and cpu_flag = True and srch = re_search_literal
      and host_name = "[''ghost'']" and module_names = "[]"
      and ?df0.0 = "[mk_row ''node02'' ''gromacs/2018'' False 2 80 19,
                     mk_row ''node01'' ''gromacs/2018'' False 1 40 10]"
      and df = "[mk_row ''node02'' ''gromacs/2018'' False 2 80 19,
                 mk_row ''node01'' ''gromacs/2018'' False 1 40 10]"]
    filter_hosts [where gpu_flag = True and cpu_flag = True and srch = re_search_literal
      and host_name = "[]" and module_names = "[]"
      and ?df0.0 = "[mk_row ''node01'' ''gromacs/2018'' False 1 40 10]"
      and df = "[mk_row ''node01'' ''gromacs/2018'' False 1 40 10]"]
    filter_hosts [where gpu_flag = True and cpu_flag = True and srch = re_search_literal
      and host_name = "[''node02'']" and module_names = "[]"
      and ?df0.0 = "[mk_row ''node01'' ''gromacs/2018'' False 1 40 10,
                     mk_row ''node02'' ''gromacs/2018'' False 2 80 19]"
      and df = "[mk_row ''node01'' ''gromacs/2018'' False 1 40 10,
                 mk_row ''node02'' ''gromacs/2018'' False 2 80 19]"]
  by (simp add: processor_rows_def module_rows_def np_unique_def)

text \<open>
  C7 as stated fails. With only GPU rows requested, a frame with a CPU row of \<^verbatim>\<open>node01\<close>
  and a GPU row of \<^verbatim>\<open>node02\<close> and the unknown host \<^verbatim>\<open>ghost\<close> gives the error that lists
  \<^verbatim>\<open>node02\<close> alone, while the hosts of the data are \<^verbatim>\<open>node01\<close> and \<^verbatim>\<open>node02\<close>. And the
  request that names \<^verbatim>\<open>node01\<close> twice fails on data of \<^verbatim>\<open>node01\<close>, although one host is
  matched and the requested set has one element: the code compares with the length of
  the request.
\<close>

theorem filter_hosts_counterexample:
  "filter_dataframe_for_plotting re_search_literal
      [mk_row ''node01'' ''gromacs/2018'' False 1 40 10,
       mk_row ''node02'' ''gromacs/2018'' True 1 40 30]
      [''ghost''] [] True False
     = Inl (HostsNotFound ''node02'')
   \<and> join '', '' (np_unique (map host
        [mk_row ''node01'' ''gromacs/2018'' False 1 40 10,
         mk_row ''node02'' ''gromacs/2018'' True 1 40 30]))
     = ''node01, node02''
   \<and> filter_dataframe_for_plotting re_search_literal
      [mk_row ''node01'' ''gromacs/2018'' False 1 40 10]
      [''node01'', ''node01''] [] True True
     = Inl (HostsNotFound ''node01'')
   \<and> card (host ` set [mk_row ''node01'' ''gromacs/2018'' False 1 40 10]
             \<inter> set [''node01'', ''node01'']) = 1
   \<and> card (set [''node01'', ''node01'']) = 1"
  by (simp add: filter_by_module_rows processor_rows_def np_unique_def)

text \<open>
  C1 (amended). When the requested modules are not empty and all among \<^verbatim>\<open>gromacs\<close> and
  \<^verbatim>\<open>namd\<close>, no requested name has to occur in the data, but the rows are still restricted:
  the result is the result for no requested module, reduced to the rows whose module
  matches the pattern of the names joined by \<^verbatim>\<open>|\<close>, and the error "no benchmarking
  information" when no row is left.
\<close>

theorem filter_engine_families:
  assumes "module_names \<noteq> []" and "set module_names \<subseteq> {''gromacs'', ''namd''}"
  shows "filter_dataframe_for_plotting srch df0 host_name module_names gpu_flag cpu_flag =
     (case filter_dataframe_for_plotting srch df0 host_name [] gpu_flag cpu_flag of
        Inl e \<Rightarrow> Inl e
      | Inr df \<Rightarrow>
          (let kept = filter (\<lambda>r. srch (join ''|'' module_names) (module r)) df
           in if kept = [] then Inl NoBenchmarkInfo else Inr kept))"
proof -
  define P where "P = processor_rows gpu_flag cpu_flag df0"
  define H where "H = (if host_name = [] then P else filter (\<lambda>r. host r \<in> set host_name) P)"
  define c1 where "c1 \<longleftrightarrow> \<not> cpu_flag \<and> \<not> gpu_flag"
  define c3 where "c3 \<longleftrightarrow>
    length (np_unique (map host (filter (\<lambda>r. host r \<in> set host_name) P))) \<noteq> length host_name"
  define e3 where "e3 = HostsNotFound (join '', '' (np_unique (map host P)))"
  have shape: "filter_dataframe_for_plotting srch df0 host_name ms gpu_flag cpu_flag =
      (if c1 then Inl NothingToPlot else if P = [] then Inl EmptyDataset
       else if c3 then Inl e3 else module_rows srch ms H)" for ms
    unfolding P_def H_def c1_def c3_def e3_def by (rule filter_by_module_rows)
  have fam: "module_rows srch module_names H =
      (let kept = filter (\<lambda>r. srch (join ''|'' module_names) (module r)) H
       in if kept = [] then Inl NoBenchmarkInfo else Inr kept)"
    by (rule module_rows_families [OF assms])
  have emp: "module_rows srch [] H = (if H = [] then Inl NoBenchmarkInfo else Inr H)"
    by (rule module_rows_empty)
  show ?thesis
    unfolding shape fam emp by (simp add: Let_def)
qed

theorem filter_engine_families_witness:
  "[''gromacs''] \<noteq> [] \<and> set [''gromacs''] \<subseteq> {''gromacs'', ''namd''}
   \<and> filter_dataframe_for_plotting re_search_literal
        [mk_row ''h'' ''gromacs/2018'' False 1 40 10,
         mk_row ''h'' ''namd/2.12'' False 1 40 5]
        [] [''gromacs''] True True
      = Inr [mk_row ''h'' ''gromacs/2018'' False 1 40 10]"
  using filter_engine_families [where module_names = "[''gromacs'']"
      and srch = re_search_literal and host_name = "[]" and gpu_flag = True and cpu_flag = True
      and ?df0.0 = "[mk_row ''h'' ''gromacs/2018'' False 1 40 10,
                     mk_row ''h'' ''namd/2.12'' False 1 40 5]"]
  by (simp add: filter_by_module_rows module_rows_empty processor_rows_def np_unique_def
        search_examples)

text \<open>
  C1 as stated fails: on a frame with one \<^verbatim>\<open>gromacs/2018\<close> row and one \<^verbatim>\<open>namd/2.12\<close> row,
  requesting \<^verbatim>\<open>gromacs\<close> returns the first row only, requesting no module returns both.
\<close>

theorem filter_engine_families_counterexample:
  "filter_dataframe_for_plotting re_search_literal
      [mk_row ''h'' ''gromacs/2018'' False 1 40 10,
       mk_row ''h'' ''namd/2.12'' False 1 40 5]
      [] [''gromacs''] True True
     = Inr [mk_row ''h'' ''gromacs/2018'' False 1 40 10]
   \<and> filter_dataframe_for_plotting re_search_literal
      [mk_row ''h'' ''gromacs/2018'' False 1 40 10,
       mk_row ''h'' ''namd/2.12'' False 1 40 5]
      [] [] True True
     = Inr [mk_row ''h'' ''gromacs/2018'' False 1 40 10,
            mk_row ''h'' ''namd/2.12'' False 1 40 5]
   \<and> filter_dataframe_for_plotting re_search_literal
      [mk_row ''h'' ''gromacs/2018'' False 1 40 10,
       mk_row ''h'' ''namd/2.12'' False 1 40 5]
      [] [''gromacs''] True True
     \<noteq> filter_dataframe_for_plotting re_search_literal
      [mk_row ''h'' ''gromacs/2018'' False 1 40 10,
       mk_row ''h'' ''namd/2.12'' False 1 40 5]
      [] [] True True"
  by (simp add: filter_by_module_rows module_rows_empty module_rows_def processor_rows_def
        np_unique_def search_examples)

subsection \<open>The lines of the plot\<close>

lemma plot_projection_total:
  "1 < length df \<Longrightarrow> \<exists>pr. plot_projection df selection = Inr pr"
  by (cases "(df, selection)" rule: plot_projection.cases) (simp_all add: Let_def)

lemma plot_line_total:
  "\<exists>s. plot_line df selection label fit = Inr s
       \<and> sr_points s = map (\<lambda>r. (selection r, ns_day r)) df"
proof (cases "fit \<and> 1 < length df")
  case True
  then obtain pr where "plot_projection df selection = Inr pr"
    using plot_projection_total by blast
  with True show ?thesis by (simp add: plot_line_def)
next
  case False
  then show ?thesis by (auto simp: plot_line_def)
qed

lemma plot_groups_total:
  "\<exists>ss. plot_groups gb selection fit = Inr ss
        \<and> map sr_points ss = map (\<lambda>g. map (\<lambda>r. (selection r, ns_day r)) (snd g)) gb"
proof (induction gb)
  case Nil
  show ?case by simp
next
  case (Cons g gb)
  obtain key df where g: "g = (key, df)" by (cases g)
  obtain s where s: "plot_line df selection (group_label key) fit = Inr s"
      "sr_points s = map (\<lambda>r. (selection r, ns_day r)) df"
    using plot_line_total by blast
  from Cons obtain ss where ss: "plot_groups gb selection fit = Inr ss"
      "map sr_points ss = map (\<lambda>g. map (\<lambda>r. (selection r, ns_day r)) (snd g)) gb"
    by blast
  show ?case using g s ss by simp
qed

lemma sorted_group:
  "sorted (map f df) \<Longrightarrow> sorted (map fst (map (\<lambda>r. (f r, g r)) (filter P df)))"
  by (simp add: comp_def sorted_filter)

lemma groups_keep_frame_order:
  "\<exists>ss. plot_groups (groupby df) sel fit = Inr ss
      \<and> map sr_points ss =
          map (\<lambda>k. map (\<lambda>r. (sel r, ns_day r)) (filter (\<lambda>r. key_of r = k) df))
              (sort (remdups (map key_of df)))
      \<and> (sorted (map sel df) \<longrightarrow> (\<forall>s \<in> set ss. sorted (map fst (sr_points s))))"
proof -
  obtain ss where ss: "plot_groups (groupby df) sel fit = Inr ss"
      "map sr_points ss = map (\<lambda>g. map (\<lambda>r. (sel r, ns_day r)) (snd g)) (groupby df)"
    using plot_groups_total by blast
  have pts: "map sr_points ss =
      map (\<lambda>k. map (\<lambda>r. (sel r, ns_day r)) (filter (\<lambda>r. key_of r = k) df))
          (sort (remdups (map key_of df)))"
    using ss(2) by (simp add: groupby_def comp_def)
  have srt: "\<forall>s \<in> set ss. sorted (map fst (sr_points s))" if "sorted (map sel df)"
  proof
    fix s assume "s \<in> set ss"
    then have "sr_points s \<in> set (map sr_points ss)" by simp
    then obtain k where "sr_points s = map (\<lambda>r. (sel r, ns_day r)) (filter (\<lambda>r. key_of r = k) df)"
      unfolding pts by auto
    then show "sorted (map fst (sr_points s))"
      using sorted_group [OF that, of ns_day "\<lambda>r. key_of r = k"] by simp
  qed
  show ?thesis
    using ss(1) pts srt by blast
qed

text \<open>
  C2 (amended). \<^verbatim>\<open>plot_over_group\<close> always returns its lines, one for each key present in
  the frame, and the points of each line are the rows of its key in the order they have
  in the frame: nothing is sorted. So each line is ascending in the x field whenever the
  frame is ascending in the x field.
\<close>

theorem series_keep_frame_order:
  "\<exists>ss. plot_over_group df plot_cores fit = Inr ss
      \<and> map sr_points ss =
          map (\<lambda>k. map (\<lambda>r. ((if plot_cores then ncores else nodes) r, ns_day r))
                     (filter (\<lambda>r. key_of r = k) df))
              (sort (remdups (map key_of df)))
      \<and> (sorted (map (if plot_cores then ncores else nodes) df)
            \<longrightarrow> (\<forall>s \<in> set ss. sorted (map fst (sr_points s))))"
  unfolding plot_over_group_def Let_def by (rule groups_keep_frame_order)

theorem series_keep_frame_order_witness:
  "plot_over_group
     [mk_row ''h'' ''gromacs/2018'' False 1 40 10,
      mk_row ''h'' ''namd/2.12'' False 1 40 4,
      mk_row ''h'' ''gromacs/2018'' False 2 80 19]
     False False
   = Inr [\<lparr>sr_label = ''h - gromacs/2018 on CPUs'', sr_points = [(1, 10), (2, 19)], sr_fit = None\<rparr>,
          \<lparr>sr_label = ''h - namd/2.12 on CPUs'', sr_points = [(1, 4)], sr_fit = None\<rparr>]
   \<and> sorted (map fst [(1::int, 10::real), (2, 19)]) \<and> sorted (map fst [(1::int, 4::real)])"
  using series_keep_frame_order [of
     "[mk_row ''h'' ''gromacs/2018'' False 1 40 10,
      mk_row ''h'' ''namd/2.12'' False 1 40 4,
      mk_row ''h'' ''gromacs/2018'' False 2 80 19]"
     False False]
  by (simp add: plot_over_group_def groupby_def key_of_def plot_line_def group_label_def)

text \<open>
  C2 as stated fails: on a frame whose two rows of one key have 2 nodes and then 1 node, the
  line has the x values 2, 1.
\<close>

theorem series_keep_frame_order_counterexample:
  "plot_over_group
     [mk_row ''h'' ''gromacs/2018'' False 2 80 19,
      mk_row ''h'' ''gromacs/2018'' False 1 40 10]
     False False
   = Inr [\<lparr>sr_label = ''h - gromacs/2018 on CPUs'', sr_points = [(2, 19), (1, 10)], sr_fit = None\<rparr>]
   \<and> \<not> sorted (map fst [(2::int, 19::real), (1, 10)])"
  by (simp add: plot_over_group_def groupby_def key_of_def plot_line_def group_label_def)

subsection \<open>The projection\<close>

lemma line_through_second:
  fixes x1 x2 y1 y2 :: real
  assumes "x2 \<noteq> x1"
  shows "lin_func x2 ((y2 - y1) / (x2 - x1)) (y1 - (y2 - y1) / (x2 - x1) * x1) = y2"
proof -
  define m where "m = (y2 - y1) / (x2 - x1)"
  have m: "m * (x2 - x1) = y2 - y1"
    unfolding m_def using assms by simp
  have "lin_func x2 m (y1 - m * x1) = m * (x2 - x1) + y1"
    by (simp add: lin_func_def algebra_simps)
  also have "\<dots> = y2" by (simp add: m)
  finally show ?thesis unfolding m_def .
qed

text \<open>
  C8. For a frame whose first two rows have different x values, \<^verbatim>\<open>plot_projection\<close> takes
  the line of slope \<open>(y2 - y1) / (x2 - x1)\<close> and intercept \<open>y1 - slope * x1\<close> from these two
  rows, and \<^verbatim>\<open>lin_func\<close> with this slope and intercept is \<open>y1\<close> at \<open>x1\<close> and \<open>y2\<close> at \<open>x2\<close>
  (in exact arithmetic).
\<close>

theorem projection_through_first_two_points:
  assumes "selection r0 \<noteq> selection r1"
  shows "plot_projection (r0 # r1 # rest) selection =
      Inr \<lparr>pr_line = Some ((ns_day r1 - ns_day r0) / (real_of_int (selection r1) - real_of_int (selection r0)),
                           ns_day r0 - (ns_day r1 - ns_day r0) / (real_of_int (selection r1) - real_of_int (selection r0))
                             * real_of_int (selection r0)),
           pr_xmax = selection (last (r0 # r1 # rest)) + (selection r1 - selection r0)\<rparr>
    \<and> lin_func (real_of_int (selection r0))
         ((ns_day r1 - ns_day r0) / (real_of_int (selection r1) - real_of_int (selection r0)))
         (ns_day r0 - (ns_day r1 - ns_day r0) / (real_of_int (selection r1) - real_of_int (selection r0))
                             * real_of_int (selection r0))
       = ns_day r0
    \<and> lin_func (real_of_int (selection r1))
         ((ns_day r1 - ns_day r0) / (real_of_int (selection r1) - real_of_int (selection r0)))
         (ns_day r0 - (ns_day r1 - ns_day r0) / (real_of_int (selection r1) - real_of_int (selection r0))
                             * real_of_int (selection r0))
       = ns_day r1"
proof -
  let ?dx = "real_of_int (selection r1) - real_of_int (selection r0)"
  have dx: "?dx \<noteq> 0" using assms by simp
  have p: "plot_projection (r0 # r1 # rest) selection =
      Inr \<lparr>pr_line = Some ((ns_day r1 - ns_day r0) / ?dx,
                           ns_day r0 - (ns_day r1 - ns_day r0) / ?dx * real_of_int (selection r0)),
           pr_xmax = selection (last (r0 # r1 # rest)) + (selection r1 - selection r0)\<rparr>"
    using assms by (simp add: calc_slope_intercept_def Let_def del: last.simps)
  have l0: "lin_func (real_of_int (selection r0)) ((ns_day r1 - ns_day r0) / ?dx)
         (ns_day r0 - (ns_day r1 - ns_day r0) / ?dx * real_of_int (selection r0)) = ns_day r0"
    by (simp add: lin_func_def)
  have l1: "lin_func (real_of_int (selection r1)) ((ns_day r1 - ns_day r0) / ?dx)
         (ns_day r0 - (ns_day r1 - ns_day r0) / ?dx * real_of_int (selection r0)) = ns_day r1"
    using assms by (intro line_through_second) simp
  show ?thesis using p l0 l1 by blast
qed

theorem projection_through_first_two_points_witness:
  "nodes (mk_row ''h'' ''gromacs/2018'' False 1 40 10)
     \<noteq> nodes (mk_row ''h'' ''gromacs/2018'' False 2 80 19)
   \<and> plot_projection
        [mk_row ''h'' ''gromacs/2018'' False 1 40 10,
         mk_row ''h'' ''gromacs/2018'' False 2 80 19]
        nodes
      = Inr \<lparr>pr_line = Some (9, 1), pr_xmax = 3\<rparr>
   \<and> lin_func 1 9 1 = 10 \<and> lin_func 2 9 1 = 19"
  using projection_through_first_two_points [of nodes
      "mk_row ''h'' ''gromacs/2018'' False 1 40 10"
      "mk_row ''h'' ''gromacs/2018'' False 2 80 19"
      "[]"]
  by (simp add: lin_func_def)

subsection \<open>The axes\<close>

lemma steps_floor: "0 < max_y \<Longrightarrow> yticks_steps max_y = Inr \<lfloor>(max_y + 1) / 10\<rfloor>"
  by (simp add: yticks_steps_def astype_int_def)

lemma steps_ge_one: "1 \<le> \<lfloor>(max_y + 1) / 10\<rfloor> \<longleftrightarrow> 9 \<le> (max_y::real)"
proof -
  have "1 \<le> \<lfloor>(max_y + 1) / 10\<rfloor> \<longleftrightarrow> 1 \<le> (max_y + 1) / 10"
    by (simp add: one_le_floor)
  also have "\<dots> \<longleftrightarrow> 9 \<le> max_y" by auto
  finally show ?thesis .
qed

lemma steps_zero: "0 < max_y \<Longrightarrow> max_y < 9 \<Longrightarrow> \<lfloor>(max_y + 1) / 10\<rfloor> = (0::int)"
  by (simp add: floor_eq_iff)

lemma ticks_at_least_two:
  assumes "9 \<le> (max_y::real)"
  shows "2 \<le> nat \<lceil>(max_y + max_y * 0.25 - 0) / real_of_int \<lfloor>(max_y + 1) / 10\<rfloor>\<rceil>"
proof -
  let ?st = "real_of_int \<lfloor>(max_y + 1) / 10\<rfloor>"
  have st1: "1 \<le> ?st" using assms steps_ge_one [of max_y] by linarith
  have "?st \<le> (max_y + 1) / 10" by (rule of_int_floor_le)
  also have "\<dots> < max_y + max_y * 0.25" using assms by simp
  finally have "1 < (max_y + max_y * 0.25 - 0) / ?st"
    using st1 by (simp add: less_divide_eq)
  then have "1 < \<lceil>(max_y + max_y * 0.25 - 0) / ?st\<rceil>"
    by (simp add: less_ceiling_iff)
  then show ?thesis by linarith
qed

text \<open>
  What the y axis is from a largest performance of 9 on, and below it.
\<close>

lemma yaxis_from_nine:
  assumes "df \<noteq> []" and "Max (set (map ns_day df)) = max_y" and "9 \<le> max_y"
  shows "yticks_steps max_y = Inr \<lfloor>(max_y + 1) / 10\<rfloor>
     \<and> 1 \<le> \<lfloor>(max_y + 1) / 10\<rfloor>
     \<and> plot_yaxis df =
         Inr \<lparr>ya_ticks = map (\<lambda>i. 0 + real i * real_of_int \<lfloor>(max_y + 1) / 10\<rfloor>)
                             [0 ..< nat \<lceil>(max_y + max_y * 0.25 - 0)
                                         / real_of_int \<lfloor>(max_y + 1) / 10\<rfloor>\<rceil>],
              ya_lim = (0, max_y + max_y * 0.25)\<rparr>
     \<and> 2 \<le> nat \<lceil>(max_y + max_y * 0.25 - 0) / real_of_int \<lfloor>(max_y + 1) / 10\<rfloor>\<rceil>"
proof -
  have pos: "0 < max_y" using assms(3) by simp
  have a: "yticks_steps max_y = Inr \<lfloor>(max_y + 1) / 10\<rfloor>"
    using pos by (rule steps_floor)
  have b: "1 \<le> \<lfloor>(max_y + 1) / 10\<rfloor>"
    using assms(3) steps_ge_one [of max_y] by simp
  then have nz: "\<lfloor>(max_y + 1) / 10\<rfloor> \<noteq> 0" by linarith
  have c: "plot_yaxis df =
         Inr \<lparr>ya_ticks = map (\<lambda>i. 0 + real i * real_of_int \<lfloor>(max_y + 1) / 10\<rfloor>)
                             [0 ..< nat \<lceil>(max_y + max_y * 0.25 - 0)
                                         / real_of_int \<lfloor>(max_y + 1) / 10\<rfloor>\<rceil>],
              ya_lim = (0, max_y + max_y * 0.25)\<rparr>"
    using a assms(1,2) nz by (simp add: plot_yaxis_def arange_real_def)
  show ?thesis using a b c ticks_at_least_two [OF assms(3)] by blast
qed

lemma yaxis_below_nine:
  assumes "df \<noteq> []" and "Max (set (map ns_day df)) = max_y" and "0 < max_y" and "max_y < 9"
  shows "yticks_steps max_y = Inr 0 \<and> plot_yaxis df = Inl ArangeError"
  using assms steps_floor [OF assms(3)] steps_zero [OF assms(3,4)]
  by (simp add: plot_yaxis_def arange_real_def)

text \<open>
  C3. The interval of the y ticks is \<open>\<lfloor>(max_y + 1) / 10\<rfloor>\<close>, which is not at least 1 for a
  largest performance below 9: for the frame of one row with the performance 5 the
  interval is 0, \<^verbatim>\<open>np.arange\<close> fails on it, and so does the whole command with every
  option at its default. The code guards the axis against a largest performance of zero
  only (\<^verbatim>\<open>max_y or 50\<close>), not against a positive one below 9.
\<close>

theorem plot_small_performance_fails:
  "yticks_steps 5 = Inr 0
   \<and> plot_yaxis [mk_row ''h'' ''gromacs/2018'' False 1 40 5] = Inl ArangeError
   \<and> plot re_search_literal [mk_row ''h'' ''gromacs/2018'' False 1 40 5]
        [] [] True True False True None
      = Inl ArangeError"
proof -
  have y: "yticks_steps 5 = Inr 0"
    by (simp add: yticks_steps_def astype_int_def)
  have ya: "plot_yaxis [mk_row ''h'' ''gromacs/2018'' False 1 40 5] = Inl ArangeError"
    by (simp add: y plot_yaxis_def arange_real_def)
  have f: "filter_dataframe_for_plotting re_search_literal
             [mk_row ''h'' ''gromacs/2018'' False 1 40 5] [] [] True True
           = Inr [mk_row ''h'' ''gromacs/2018'' False 1 40 5]"
    by (simp add: filter_by_module_rows module_rows_empty processor_rows_def np_unique_def)
  have g: "plot_over_group [mk_row ''h'' ''gromacs/2018'' False 1 40 5] False True
           = Inr [\<lparr>sr_label = ''h - gromacs/2018 on CPUs'', sr_points = [(1, 5)],
                   sr_fit = None\<rparr>]"
    by (simp add: plot_over_group_def groupby_def key_of_def plot_line_def group_label_def)
  have x: "plot_xaxis [mk_row ''h'' ''gromacs/2018'' False 1 40 5] False None
           = Inr \<lparr>xa_candidates = [1], xa_step = 1, xa_ticks = [1], xa_lim = (0.5, 1.5)\<rparr>"
    by (simp add: plot_xaxis_def arange_def get_xsteps_def slice_step_def)
  show ?thesis
    by (simp add: y ya plot_def f g x)
qed

lemma arange_from_one: "arange 1 (m + 1) 1 = Inr [1..m]"
proof -
  have "map (\<lambda>i. 1 + int i) [0 ..< nat m] = [1..m]"
    by (rule nth_equalityI) simp_all
  then show ?thesis by (simp add: arange_def)
qed

lemma get_xsteps_nonzero: "get_xsteps sz min_x plot_cores xtick_step \<noteq> 0"
  by (simp add: get_xsteps_def split: option.splits)

text \<open>
  C10. For nodes on the x axis (\<open>plot_cores = False\<close>) and a frame that is not empty, the
  candidate ticks are 1, 2, ..., \<open>max_nodes\<close> whatever the smallest node count of the frame,
  the step is \<^verbatim>\<open>get_xsteps\<close> of their number and of the base 1, the ticks set are the
  candidates sampled by the step, and the limits are \<open>1 - 0.5 * step\<close> and
  \<open>max_nodes + 0.5 * step\<close>.
\<close>

theorem xaxis_per_node:
  assumes "df \<noteq> []" and "Max (set (map nodes df)) = max_nodes"
  shows "plot_xaxis df False xtick_step =
     (let step = get_xsteps (int (length [1..max_nodes])) 1 False xtick_step
      in Inr \<lparr>xa_candidates = [1..max_nodes],
              xa_step = step,
              xa_ticks = (if 0 < step then stride (nat step) [1..max_nodes]
                          else stride (nat (- step)) (rev [1..max_nodes])),
              xa_lim = (1 - 0.5 * real_of_int step, real_of_int max_nodes + 0.5 * real_of_int step)\<rparr>)"
  using assms
  by (simp add: plot_xaxis_def arange_from_one slice_step_def get_xsteps_nonzero Let_def)

theorem xaxis_per_node_witness:
  "[mk_row ''h'' ''gromacs/2018'' False 2 80 19,
    mk_row ''h'' ''gromacs/2018'' False 4 160 35] \<noteq> []
   \<and> plot_xaxis
       [mk_row ''h'' ''gromacs/2018'' False 2 80 19,
        mk_row ''h'' ''gromacs/2018'' False 4 160 35]
       False None
     = Inr \<lparr>xa_candidates = [1, 2, 3, 4], xa_step = 1, xa_ticks = [1, 2, 3, 4], xa_lim = (0.5, 4.5)\<rparr>"
  using xaxis_per_node [of
       "[mk_row ''h'' ''gromacs/2018'' False 2 80 19,
        mk_row ''h'' ''gromacs/2018'' False 4 160 35]"
       4 None]
  by (simp add: get_xsteps_def upto.simps Let_def)

end
